theory Spec2Isabelle
  imports Complex_Main "HOL-Library.AList"
begin

section \<open>Whitelist audit plugin: data model\<close>

text \<open>
  The development embeds \<^verbatim>\<open>src/whitelist_audit.py\<close> (class \<^verbatim>\<open>WhitelistAuditPlugin\<close>).

  Conventions of the embedding.
  \<^item> A Python \<^verbatim>\<open>dict\<close> is an insertion-ordered association list: \<open>map_of\<close> is the
    lookup, \<open>AList.update\<close> is \<^verbatim>\<open>d[k] = v\<close> (an existing key keeps its place, a new
    key goes last) and \<open>AList.delete\<close> is \<^verbatim>\<open>del d[k]\<close>.
  \<^item> The keys \<^verbatim>\<open>f"{user_id}_{group_id}"\<close> and \<^verbatim>\<open>f"{user_id}_{game_id}"\<close> are pairs: with
    an integer first component the formatted string determines both components.
  \<^item> \<^verbatim>\<open>time.time()\<close> is a rational number of seconds, read once per atomic segment
    (the code between two \<^verbatim>\<open>await\<close>s that really suspend) and passed as \<open>now\<close>;
    \<^verbatim>\<open>datetime.now().isoformat()\<close> is the same clock value.
  \<^item> Texts sent to the chat are constructors of \<open>reply\<close> and \<open>notice\<close>, one per message
    of the source; file persistence (\<^verbatim>\<open>_save_data\<close>) and logging are left out.
  \<^item> The language model and the RCON executor are opaque collaborators: their answers
    are inputs of the functions that await them.
\<close>

type_synonym session_key = "int \<times> int"
type_synonym cooldown_key = "int \<times> string"

record config =
  allowed_groups :: "int list"
  cooldown_seconds :: int
  pass_score :: int
  question_count :: nat
  answer_timeout :: int
  max_whitelist_per_qq :: int

record session =
  user_id :: int
  game_id :: string
  group_id :: int
  questions :: "string list"
  answers :: "string list"
  current_question_index :: nat
  start_time :: rat
  last_activity_time :: rat
  current_question_start_time :: rat

datatype added_by = Admin | Audit

record whitelist_info =
  wl_user_id :: int
  wl_group_id :: int
  wl_added_by :: added_by
  wl_add_time :: rat

text \<open>
  An audit record; \<open>rec_state\<close> is \<open>Some k\<close> for the field
  \<^verbatim>\<open>"state": f"timeout_question_{k}"\<close>, which only the timeout path writes.
\<close>

record audit_record =
  rec_user_id :: int
  rec_game_id :: string
  rec_group_id :: int
  rec_questions :: "string list"
  rec_answers :: "string list"
  rec_score :: int
  rec_passed :: bool
  rec_state :: "nat option"
  rec_start_time :: rat
  rec_end_time :: rat

text \<open>
  The mutable attributes of the plugin object. \<open>timeout_tasks\<close> maps a session key to
  the question index its registered timeout task was created for. The firing of a task
  is a transition that can be taken for any key and index, so a task that is no longer
  registered, or was never cancelled, is covered as well.
\<close>

record plugin_state =
  audit_records :: "(int \<times> audit_record list) list"
  whitelist :: "(string \<times> whitelist_info) list"
  cooldown :: "(cooldown_key \<times> rat) list"
  audit_sessions :: "(session_key \<times> session) list"
  timeout_tasks :: "(session_key \<times> nat) list"
  auditing_game_ids :: "string set"

definition initial_state :: plugin_state where
  "initial_state = \<lparr>audit_records = [], whitelist = [], cooldown = [],
     audit_sessions = [], timeout_tasks = [], auditing_game_ids = {}\<rparr>"

text \<open>Immediate replies of the command handlers, in the order of the source.\<close>

datatype reply =
    NotInGroup
  | GroupNotSupported
  | MissingGameId
  | BadGameIdFormat
  | CooldownActive int int
  | AlreadyWhitelisted string
  | QuotaReached nat int
  | BeingAudited string
  | SessionInProgress
  | RequestReceived int string
  | NoActiveSession
  | MissingAnswer
  | AnswerTooLong
  | QuestionTimedOut
  | QuestionIndexError

text \<open>The detached task that \<^verbatim>\<open>handle_whitelist_command\<close> creates.\<close>

datatype prepare_task = PrepareTask session_key int int string

section \<open>Strings\<close>

text \<open>
  \<^verbatim>\<open>str.strip()\<close> removes leading and trailing white space; on the characters of
  \<open>string\<close> these are the ASCII ones (tab to carriage return, the four separators
  28 to 31, and the space).
\<close>

definition is_space :: "char \<Rightarrow> bool" where
  "is_space c = (let n = (of_char c :: nat) in (9 \<le> n \<and> n \<le> 13) \<or> (28 \<le> n \<and> n \<le> 32))"

definition strip :: "string \<Rightarrow> string" where
  "strip s = rev (dropWhile is_space (rev (dropWhile is_space s)))"

definition is_id_char :: "char \<Rightarrow> bool" where
  "is_id_char c = (let n = (of_char c :: nat) in
     (97 \<le> n \<and> n \<le> 122) \<or> (65 \<le> n \<and> n \<le> 90) \<or> (48 \<le> n \<and> n \<le> 57) \<or> n = 95)"

text \<open>
  \<^verbatim>\<open>re.match(r'^[a-zA-Z0-9_]{3,16}$', game_id)\<close>: in Python \<^verbatim>\<open>$\<close> also matches just
  before one trailing newline.
\<close>

definition is_valid_game_id :: "string \<Rightarrow> bool" where
  "is_valid_game_id g =
     (let body = (if g \<noteq> [] \<and> last g = CHR 0x0A then butlast g else g)
      in 3 \<le> length body \<and> length body \<le> 16 \<and> list_all is_id_char body)"

definition is_digit :: "char \<Rightarrow> bool" where
  "is_digit c = (let n = (of_char c :: nat) in 48 \<le> n \<and> n \<le> 57)"

definition digit_value :: "char \<Rightarrow> nat" where
  "digit_value c = of_char c - 48"

text \<open>\<^verbatim>\<open>sub in text\<close> for strings.\<close>

fun starts_with :: "string \<Rightarrow> string \<Rightarrow> bool" where
  "starts_with [] text = True"
| "starts_with (c # cs) [] = False"
| "starts_with (c # cs) (d # ds) = (c = d \<and> starts_with cs ds)"

fun contains :: "string \<Rightarrow> string \<Rightarrow> bool" where
  "contains sub [] = (sub = [])"
| "contains sub (d # ds) = (starts_with sub (d # ds) \<or> contains sub ds)"

section \<open>Data management helpers\<close>

definition is_group_allowed :: "config \<Rightarrow> int \<Rightarrow> bool" where
  "is_group_allowed cfg gid = (gid \<in> set (allowed_groups cfg))"

definition is_in_whitelist :: "plugin_state \<Rightarrow> string \<Rightarrow> bool" where
  "is_in_whitelist s game = (map_of (whitelist s) game \<noteq> None)"

text \<open>\<^verbatim>\<open>_get_user_whitelist_count\<close>: every entry of the user counts, whoever added it.\<close>

definition get_user_whitelist_count :: "plugin_state \<Rightarrow> int \<Rightarrow> nat" where
  "get_user_whitelist_count s uid =
     length (filter (\<lambda>(game, info). wl_user_id info = uid) (whitelist s))"

definition add_to_whitelist :: "plugin_state \<Rightarrow> rat \<Rightarrow> string \<Rightarrow> int \<Rightarrow> int \<Rightarrow> bool \<Rightarrow> plugin_state" where
  "add_to_whitelist s now game uid gid admin =
     s\<lparr>whitelist := AList.update game
          \<lparr>wl_user_id = uid, wl_group_id = gid,
           wl_added_by = (if admin then Admin else Audit), wl_add_time = now\<rparr>
          (whitelist s)\<rparr>"

definition set_cooldown :: "config \<Rightarrow> plugin_state \<Rightarrow> rat \<Rightarrow> int \<Rightarrow> string \<Rightarrow> plugin_state" where
  "set_cooldown cfg s now uid game =
     s\<lparr>cooldown := AList.update (uid, game) (now + of_int (cooldown_seconds cfg)) (cooldown s)\<rparr>"

text \<open>
  \<^verbatim>\<open>_check_cooldown\<close> returns \<^verbatim>\<open>int(remaining)\<close> while the entry has time left and
  deletes an entry that has run out. \<^verbatim>\<open>int\<close> truncates, so less than one second
  left gives 0 with the entry kept.
\<close>

definition check_cooldown :: "plugin_state \<Rightarrow> rat \<Rightarrow> int \<Rightarrow> string \<Rightarrow> int \<times> plugin_state" where
  "check_cooldown s now uid game =
     (case map_of (cooldown s) (uid, game) of
        None \<Rightarrow> (0, s)
      | Some expiry \<Rightarrow>
          (let remaining = expiry - now
           in if remaining > 0 then (\<lfloor>remaining\<rfloor>, s)
              else (0, s\<lparr>cooldown := AList.delete (uid, game) (cooldown s)\<rparr>)))"

definition save_audit_record :: "plugin_state \<Rightarrow> audit_record \<Rightarrow> plugin_state" where
  "save_audit_record s record =
     (let uid = rec_user_id record;
          earlier = (case map_of (audit_records s) uid of None \<Rightarrow> [] | Some rs \<Rightarrow> rs)
      in s\<lparr>audit_records := AList.update uid (earlier @ [record]) (audit_records s)\<rparr>)"

text \<open>
  Dropping the entry of the timeout task of a session. The answer, completion and
  sweep paths call \<^verbatim>\<open>task.cancel()\<close> first; \<^verbatim>\<open>_handle_question_timeout\<close> only
  deletes the entry.
\<close>

definition cancel_timeout :: "plugin_state \<Rightarrow> session_key \<Rightarrow> plugin_state" where
  "cancel_timeout s key = s\<lparr>timeout_tasks := AList.delete key (timeout_tasks s)\<rparr>"

section \<open>Starting an interview\<close>

text \<open>
  \<^verbatim>\<open>handle_whitelist_command\<close> has no suspension point: it runs atomically and returns
  the reply, the state and the detached task it created, if any. \<^verbatim>\<open>not group_id\<close>
  is \<open>gid = 0\<close>.
\<close>

definition handle_whitelist_command ::
  "config \<Rightarrow> plugin_state \<Rightarrow> rat \<Rightarrow> int \<Rightarrow> int \<Rightarrow> string \<Rightarrow> reply \<times> plugin_state \<times> prepare_task option" where
  "handle_whitelist_command cfg s now uid gid command_text =
     (if gid = 0 then (NotInGroup, s, None)
      else if \<not> is_group_allowed cfg gid then (GroupNotSupported, s, None)
      else let game = strip command_text in
        if game = [] then (MissingGameId, s, None)
        else if \<not> is_valid_game_id game then (BadGameIdFormat, s, None)
        else let (cooldown_remaining, s1) = check_cooldown s now uid game in
          if cooldown_remaining > 0
          then (CooldownActive (cooldown_remaining div 3600) ((cooldown_remaining mod 3600) div 60), s1, None)
          else if is_in_whitelist s1 game then (AlreadyWhitelisted game, s1, None)
          else let user_whitelist_count = get_user_whitelist_count s1 uid;
                   max_allowed = max_whitelist_per_qq cfg in
            if int user_whitelist_count \<ge> max_allowed
            then (QuotaReached user_whitelist_count max_allowed, s1, None)
            else if game \<in> auditing_game_ids s1 then (BeingAudited game, s1, None)
            else if map_of (audit_sessions s1) (uid, gid) \<noteq> None then (SessionInProgress, s1, None)
            else (RequestReceived uid game, s1, Some (PrepareTask (uid, gid) uid gid game)))"

text \<open>
  \<^verbatim>\<open>_prepare_and_send_first_question\<close>, resumed with what \<^verbatim>\<open>_fetch_questions\<close>
  returned (\<open>None\<close> or an empty list: the task reports the failure and ends).
\<close>

fun prepare_and_send_first_question ::
  "plugin_state \<Rightarrow> rat \<Rightarrow> prepare_task \<Rightarrow> string list option \<Rightarrow> plugin_state" where
  "prepare_and_send_first_question s now (PrepareTask key uid gid game) fetched =
     (case fetched of
        None \<Rightarrow> s
      | Some qs \<Rightarrow>
          if qs = [] then s
          else s\<lparr>audit_sessions := AList.update key
                    \<lparr>user_id = uid, game_id = game, group_id = gid, questions = qs,
                     answers = [], current_question_index = 0, start_time = now,
                     last_activity_time = now, current_question_start_time = now\<rparr>
                    (audit_sessions s),
                 auditing_game_ids := insert game (auditing_game_ids s),
                 timeout_tasks := AList.update key 0 (timeout_tasks s)\<rparr>)"

section \<open>Scoring\<close>

text \<open>
  One call of the scoring model either times out, fails with another exception, or
  responds with a text. The client is absent when the \<^verbatim>\<open>openai\<close> import failed;
  otherwise it answers a transcript at a given attempt number.
\<close>

datatype scorer_outcome = TimesOut | Fails | Responds string

datatype ai_client = NoOpenAI | OpenAI "(string \<times> string) list \<Rightarrow> nat \<Rightarrow> scorer_outcome"

definition total_score :: "config \<Rightarrow> int" where
  "total_score cfg = int (question_count cfg) * 10"

text \<open>
  \<^verbatim>\<open>re.search(r'(\d+)', response_text)\<close>: the leftmost maximal run of digits, the
  digits being the ASCII ones on the characters of \<open>string\<close>.
\<close>

definition first_number :: "string \<Rightarrow> string" where
  "first_number text = takeWhile is_digit (dropWhile (\<lambda>c. \<not> is_digit c) text)"

definition decimal_value :: "string \<Rightarrow> nat" where
  "decimal_value ds = foldl (\<lambda>n c. 10 * n + digit_value c) 0 ds"

definition parse_score :: "string \<Rightarrow> int option" where
  "parse_score text =
     (let ds = first_number text in if ds = [] then None else Some (int (decimal_value ds)))"

text \<open>
  The transcript put into the prompt: \<^verbatim>\<open>zip(questions, answers)\<close>, a blank answer
  shown by a placeholder.
\<close>

definition transcript :: "string list \<Rightarrow> string list \<Rightarrow> (string \<times> string) list" where
  "transcript qs ans = map (\<lambda>(q, a). (q, if strip a = [] then ''[no answer]'' else a)) (zip qs ans)"

definition max_retries :: nat where
  "max_retries = 2"

text \<open>
  The loop \<^verbatim>\<open>for attempt in range(max_retries)\<close> of \<^verbatim>\<open>_evaluate_answers\<close>: a score
  in range is returned at once; every other outcome goes to the next attempt, and the
  loop running out returns 0.
\<close>

fun evaluate_attempts :: "config \<Rightarrow> (nat \<Rightarrow> scorer_outcome) \<Rightarrow> nat list \<Rightarrow> int" where
  "evaluate_attempts cfg call [] = 0"
| "evaluate_attempts cfg call (attempt # rest) =
     (case call attempt of
        Responds text \<Rightarrow>
          (case parse_score text of
             Some score \<Rightarrow>
               if 0 \<le> score \<and> score \<le> total_score cfg then score
               else evaluate_attempts cfg call rest
           | None \<Rightarrow> evaluate_attempts cfg call rest)
      | TimesOut \<Rightarrow> evaluate_attempts cfg call rest
      | Fails \<Rightarrow> evaluate_attempts cfg call rest)"

fun evaluate_answers :: "config \<Rightarrow> ai_client \<Rightarrow> string list \<Rightarrow> string list \<Rightarrow> int" where
  "evaluate_answers cfg NoOpenAI qs ans = 0"
| "evaluate_answers cfg (OpenAI scorer) qs ans =
     evaluate_attempts cfg (scorer (transcript qs ans)) [0..<max_retries]"

section \<open>Remote whitelist\<close>

datatype rcon_command = AddCommand string | ListCommand

datatype rcon_result = Raises | ReturnsNone | Returns string

text \<open>
  The RCON client handed to the plugin: absent, or present with its connection status
  and what \<^verbatim>\<open>execute_command\<close> does with a command.
\<close>

datatype rcon_client = NoRcon | Rcon bool "rcon_command \<Rightarrow> rcon_result"

definition check_whitelist_status :: "string \<Rightarrow> (rcon_command \<Rightarrow> rcon_result) \<Rightarrow> bool" where
  "check_whitelist_status game execute =
     (case execute ListCommand of
        Returns text \<Rightarrow> text \<noteq> [] \<and> contains game text
      | ReturnsNone \<Rightarrow> False
      | Raises \<Rightarrow> False)"

fun add_to_server_whitelist :: "string \<Rightarrow> rcon_client \<Rightarrow> bool" where
  "add_to_server_whitelist game NoRcon = False"
| "add_to_server_whitelist game (Rcon is_connected execute) =
     (if \<not> is_connected then False
      else case execute (AddCommand game) of
             Returns text \<Rightarrow> True
           | ReturnsNone \<Rightarrow> check_whitelist_status game execute
           | Raises \<Rightarrow> False)"

section \<open>Completion and timeout\<close>

text \<open>Result messages that \<^verbatim>\<open>_complete_audit\<close> sends to the group, with the score.\<close>

datatype notice = PassedAndAdded int | PassedLocalOnly int | NotPassed int | CompletionFailed

text \<open>
  \<^verbatim>\<open>_complete_audit\<close>. A missing session is the \<^verbatim>\<open>KeyError\<close> of the first
  statement, caught by the handler of the function.
\<close>

definition complete_audit ::
  "config \<Rightarrow> plugin_state \<Rightarrow> rat \<Rightarrow> session_key \<Rightarrow> int \<Rightarrow> int \<Rightarrow> ai_client \<Rightarrow> rcon_client
     \<Rightarrow> plugin_state \<times> notice" where
  "complete_audit cfg s now key uid gid ai rcon =
     (case map_of (audit_sessions s) key of
        None \<Rightarrow> (s, CompletionFailed)
      | Some sess \<Rightarrow>
          (let game = game_id sess;
               s1 = cancel_timeout s key;
               score = evaluate_answers cfg ai (questions sess) (answers sess);
               record = \<lparr>rec_user_id = uid, rec_game_id = game, rec_group_id = gid,
                         rec_questions = questions sess, rec_answers = answers sess,
                         rec_score = score, rec_passed = (score \<ge> pass_score cfg),
                         rec_state = None, rec_start_time = start_time sess, rec_end_time = now\<rparr>;
               s2 = save_audit_record s1 record;
               s3 = s2\<lparr>auditing_game_ids := auditing_game_ids s2 - {game}\<rparr>;
               s4 = s3\<lparr>audit_sessions := AList.delete key (audit_sessions s3)\<rparr>
           in if score \<ge> pass_score cfg then
                (let success = add_to_server_whitelist game rcon;
                     s5 = add_to_whitelist s4 now game uid gid False
                 in (s5, if success then PassedAndAdded score else PassedLocalOnly score))
              else (set_cooldown cfg s4 now uid game, NotPassed score)))"

text \<open>
  The loop \<^verbatim>\<open>while len(session["answers"]) <= question_index: append("")\<close>.
\<close>

function pad_answers :: "string list \<Rightarrow> nat \<Rightarrow> string list" where
  "pad_answers ans question_index =
     (if length ans \<le> question_index then pad_answers (ans @ [[]]) question_index else ans)"
  by pat_completeness auto
termination
  by (relation "measure (\<lambda>(ans, question_index). Suc question_index - length ans)") auto

definition handle_question_timeout ::
  "config \<Rightarrow> plugin_state \<Rightarrow> rat \<Rightarrow> session_key \<Rightarrow> int \<Rightarrow> int \<Rightarrow> nat \<Rightarrow> plugin_state" where
  "handle_question_timeout cfg s now key uid gid question_index =
     (case map_of (audit_sessions s) key of
        None \<Rightarrow> s
      | Some sess \<Rightarrow>
          (let game = game_id sess in
           if length (answers sess) \<noteq> question_index then s
           else
             (let padded = pad_answers (answers sess) question_index;
                  s1 = s\<lparr>auditing_game_ids := auditing_game_ids s - {game}\<rparr>;
                  record = \<lparr>rec_user_id = uid, rec_game_id = game, rec_group_id = gid,
                            rec_questions = questions sess, rec_answers = padded,
                            rec_score = 0, rec_passed = False,
                            rec_state = Some (question_index + 1),
                            rec_start_time = start_time sess, rec_end_time = now\<rparr>;
                  s2 = save_audit_record s1 record;
                  s3 = set_cooldown cfg s2 now uid game;
                  s4 = cancel_timeout s3 key
              in s4\<lparr>audit_sessions := AList.delete key (audit_sessions s4)\<rparr>)))"

text \<open>
  \<^verbatim>\<open>_check_question_timeout\<close> after its \<^verbatim>\<open>asyncio.sleep\<close>: the transition that a
  timeout task armed for \<open>(key, question_index)\<close> performs when it fires.
\<close>

definition check_question_timeout ::
  "config \<Rightarrow> plugin_state \<Rightarrow> rat \<Rightarrow> session_key \<Rightarrow> int \<Rightarrow> int \<Rightarrow> nat \<Rightarrow> plugin_state" where
  "check_question_timeout cfg s now key uid gid question_index =
     (case map_of (audit_sessions s) key of
        None \<Rightarrow> s
      | Some sess \<Rightarrow>
          if length (answers sess) \<noteq> question_index then s
          else if game_id sess \<notin> auditing_game_ids s then s
          else handle_question_timeout cfg s now key uid gid question_index)"

section \<open>Answer intake\<close>

text \<open>
  The part of \<^verbatim>\<open>handle_answer_command\<close> that cancels the timeout task and records
  the answer (the state in which \<^verbatim>\<open>_complete_audit\<close> awaits the score).
\<close>

definition accept_answer :: "plugin_state \<Rightarrow> rat \<Rightarrow> session_key \<Rightarrow> session \<Rightarrow> string \<Rightarrow> plugin_state" where
  "accept_answer s now key sess answer =
     (let s1 = cancel_timeout s key
      in s1\<lparr>audit_sessions := AList.update key
              (sess\<lparr>answers := answers sess @ [answer], last_activity_time := now\<rparr>)
              (audit_sessions s1)\<rparr>)"

text \<open>
  \<^verbatim>\<open>handle_answer_command\<close>; the reply is \<open>None\<close> where the source returns
  \<^verbatim>\<open>None\<close> and sends the next question or the result itself. The completion is
  called without an RCON client, as in the source. The score is awaited inside
  \<^verbatim>\<open>_complete_audit\<close>; here the completion follows the intake directly.
\<close>

definition handle_answer_command ::
  "config \<Rightarrow> plugin_state \<Rightarrow> rat \<Rightarrow> int \<Rightarrow> int \<Rightarrow> string \<Rightarrow> ai_client \<Rightarrow> reply option \<times> plugin_state" where
  "handle_answer_command cfg s now uid gid command_text ai =
     (let key = (uid, gid) in
      case map_of (audit_sessions s) key of
        None \<Rightarrow> (Some NoActiveSession, s)
      | Some sess \<Rightarrow>
          (let answer = strip command_text in
           if answer = [] then (Some MissingAnswer, s)
           else if length answer > 500 then (Some AnswerTooLong, s)
           else if now - current_question_start_time sess > of_int (answer_timeout cfg)
           then (Some QuestionTimedOut,
                 handle_question_timeout cfg s now key uid gid (length (answers sess)))
           else
             (let s2 = accept_answer s now key sess answer;
                  current_progress = Suc (length (answers sess));
                  total_questions = question_count cfg
              in if current_progress \<ge> total_questions
                 then (None, fst (complete_audit cfg s2 now key uid gid ai NoRcon))
                 else
                   (let s3 = s2\<lparr>audit_sessions := AList.update key
                               (sess\<lparr>answers := answers sess @ [answer], last_activity_time := now,
                                     current_question_start_time := now\<rparr>)
                               (audit_sessions s2)\<rparr>;
                        next_index = current_progress
                    in if next_index < length (questions sess)
                       then (None, s3\<lparr>timeout_tasks := AList.update key next_index (timeout_tasks s3)\<rparr>)
                       else (Some QuestionIndexError, s3)))))"

section \<open>Idle-session sweep and admin override\<close>

text \<open>
  One round of \<^verbatim>\<open>_cleanup_expired_sessions\<close> after its sleep of 300 seconds: the
  sessions without activity for more than 1800 seconds are collected and then removed,
  with their lock and their timeout task.
\<close>

definition expired_sessions :: "plugin_state \<Rightarrow> rat \<Rightarrow> session_key list" where
  "expired_sessions s now =
     map fst (filter (\<lambda>(key, sess). now - last_activity_time sess > 1800) (audit_sessions s))"

definition remove_session :: "session_key \<Rightarrow> plugin_state \<Rightarrow> plugin_state" where
  "remove_session key s =
     (case map_of (audit_sessions s) key of
        None \<Rightarrow> s
      | Some sess \<Rightarrow>
          (let s1 = s\<lparr>auditing_game_ids := auditing_game_ids s - {game_id sess}\<rparr>;
               s2 = cancel_timeout s1 key
           in s2\<lparr>audit_sessions := AList.delete key (audit_sessions s2)\<rparr>))"

definition cleanup_expired_sessions :: "plugin_state \<Rightarrow> rat \<Rightarrow> plugin_state" where
  "cleanup_expired_sessions s now = fold remove_session (expired_sessions s now) s"

text \<open>
  \<^verbatim>\<open>handle_admin\<close>, action \<^verbatim>\<open>add\<close>: the entry is written under the id of the user
  who issued the command, whether the server accepted the identifier or not.
\<close>

datatype admin_reply = AddedToServer string | AddedLocallyOnly string

definition handle_admin_add ::
  "plugin_state \<Rightarrow> rat \<Rightarrow> int \<Rightarrow> int \<Rightarrow> string \<Rightarrow> rcon_client \<Rightarrow> admin_reply \<times> plugin_state" where
  "handle_admin_add s now uid gid game rcon =
     (if add_to_server_whitelist game rcon
      then (AddedToServer game, add_to_whitelist s now game uid gid True)
      else (AddedLocallyOnly game, add_to_whitelist s now game uid gid True))"

section \<open>A sample configuration and run\<close>

text \<open>
  Three questions, pass mark 18 of 30; requester 42 in group 1000 applies for
  \<open>''Steve123''\<close>. The states below are produced by the transitions themselves.
\<close>

definition demo_config :: config where
  "demo_config = \<lparr>allowed_groups = [1000], cooldown_seconds = 3600, pass_score = 18,
     question_count = 3, answer_timeout = 180, max_whitelist_per_qq = 1\<rparr>"

definition demo_questions :: "string list" where
  "demo_questions = [''Q1'', ''Q2'', ''Q3'']"

definition demo_started :: plugin_state where
  "demo_started = prepare_and_send_first_question initial_state 0
     (PrepareTask (42, 1000) 42 1000 ''Steve123'') (Some demo_questions)"


text \<open>
  A second configuration with a single question and pass mark 6. Requester 42 first
  fails an interview for \<open>''Alex77''\<close> (score 3, answered at time 10), then starts one
  for \<open>''Steve123''\<close> at time 21 and passes it at time 30 (score 9).
\<close>

definition quick_config :: config where
  "quick_config = \<lparr>allowed_groups = [1000], cooldown_seconds = 3600, pass_score = 6,
     question_count = 1, answer_timeout = 180, max_whitelist_per_qq = 1\<rparr>"

definition demo_failed :: plugin_state where
  "demo_failed = snd (handle_answer_command quick_config
     (prepare_and_send_first_question initial_state 1
        (PrepareTask (42, 1000) 42 1000 ''Alex77'') (Some [''Q1'']))
     10 42 1000 ''no idea'' (OpenAI (\<lambda>qa attempt. Responds ''3'')))"

definition demo_second_started :: plugin_state where
  "demo_second_started = prepare_and_send_first_question demo_failed 21
     (PrepareTask (42, 1000) 42 1000 ''Steve123'') (Some [''Q1''])"

definition demo_second_session :: session where
  "demo_second_session =
     \<lparr>user_id = 42, game_id = ''Steve123'', group_id = 1000,
      questions = [''Q1''], answers = [], current_question_index = 0,
      start_time = 21, last_activity_time = 21, current_question_start_time = 21\<rparr>"

definition demo_awaiting_score :: plugin_state where
  "demo_awaiting_score =
     accept_answer demo_second_started 30 (42, 1000) demo_second_session ''ask an admin''"

definition demo_history :: plugin_state where
  "demo_history = snd (handle_answer_command quick_config demo_second_started 30 42 1000
     ''ask an admin'' (OpenAI (\<lambda>qa attempt. Responds ''9'')))"

text \<open>An administrator, user 42, adds \<open>''Steve123''\<close> by \<^verbatim>\<open>wl_admin add\<close>.\<close>

definition demo_admin_added :: plugin_state where
  "demo_admin_added = snd (handle_admin_add initial_state 0 42 1000 ''Steve123'' NoRcon)"

text \<open>
  The first interview again, with the answers to the first two questions recorded at
  times 10 and 20.
\<close>

definition demo_one_answer :: plugin_state where
  "demo_one_answer =
     snd (handle_answer_command demo_config demo_started 10 42 1000 ''first'' NoOpenAI)"

definition demo_two_answers :: plugin_state where
  "demo_two_answers =
     snd (handle_answer_command demo_config demo_one_answer 20 42 1000 ''second'' NoOpenAI)"

text \<open>
  Two requesters ask for the same identifier \<open>''Alex''\<close>, at times 0 and 1; the
  second request is handled while the preparation task of the first is still waiting
  for its questions. Both tasks then run with the questions they fetched.
\<close>

definition demo_race_first :: "reply \<times> plugin_state \<times> prepare_task option" where
  "demo_race_first = handle_whitelist_command demo_config initial_state 0 42 1000 ''Alex''"

definition demo_race_second :: "reply \<times> plugin_state \<times> prepare_task option" where
  "demo_race_second =
     handle_whitelist_command demo_config (fst (snd demo_race_first)) 1 43 1000 ''Alex''"

definition demo_race_state :: plugin_state where
  "demo_race_state =
     prepare_and_send_first_question
       (prepare_and_send_first_question (fst (snd demo_race_second)) 2
          (the (snd (snd demo_race_first))) (Some demo_questions))
       3 (the (snd (snd demo_race_second))) (Some demo_questions)"

section \<open>The checks of a start request, one by one\<close>

text \<open>
  The errors of all the checks of \<^verbatim>\<open>handle_whitelist_command\<close> that fail on a
  request, each check evaluated on its own on the state before the call, listed in the
  order in which the source makes them.
\<close>

definition failing_checks ::
  "config \<Rightarrow> plugin_state \<Rightarrow> rat \<Rightarrow> int \<Rightarrow> int \<Rightarrow> string \<Rightarrow> reply list" where
  "failing_checks cfg s now uid gid command_text =
     (let game = strip command_text;
          wait = fst (check_cooldown s now uid game);
          owned = get_user_whitelist_count s uid
      in (if gid = 0 then [NotInGroup] else [])
       @ (if \<not> is_group_allowed cfg gid then [GroupNotSupported] else [])
       @ (if game = [] then [MissingGameId] else [])
       @ (if \<not> is_valid_game_id game then [BadGameIdFormat] else [])
       @ (if wait > 0 then [CooldownActive (wait div 3600) ((wait mod 3600) div 60)] else [])
       @ (if is_in_whitelist s game then [AlreadyWhitelisted game] else [])
       @ (if int owned \<ge> max_whitelist_per_qq cfg
          then [QuotaReached owned (max_whitelist_per_qq cfg)] else [])
       @ (if game \<in> auditing_game_ids s then [BeingAudited game] else [])
       @ (if map_of (audit_sessions s) (uid, gid) \<noteq> None then [SessionInProgress] else []))"

section \<open>Basic facts\<close>

lemmas parse_defs = parse_score_def first_number_def decimal_value_def is_digit_def digit_value_def






lemmas step_defs = handle_answer_command_def accept_answer_def cancel_timeout_def
  complete_audit_def handle_question_timeout_def check_question_timeout_def
  save_audit_record_def set_cooldown_def add_to_whitelist_def strip_def is_space_def
  max_retries_def upt_rec total_score_def Let_def

lemmas start_defs = handle_whitelist_command_def check_cooldown_def is_group_allowed_def
  is_valid_game_id_def is_id_char_def is_in_whitelist_def get_user_whitelist_count_def
  strip_def is_space_def Let_def

lemma demo_failed_eq:
  "demo_failed =
    \<lparr>audit_records =
      [(42, [\<lparr>rec_user_id = 42, rec_game_id = ''Alex77'', rec_group_id = 1000,
              rec_questions = [''Q1''], rec_answers = [''no idea''],
              rec_score = 3, rec_passed = False, rec_state = None,
              rec_start_time = 1, rec_end_time = 10\<rparr>])],
     whitelist = [], cooldown = [((42, ''Alex77''), 3610)],
     audit_sessions = [], timeout_tasks = [], auditing_game_ids = {}\<rparr>"
  by (simp add: demo_failed_def quick_config_def initial_state_def step_defs parse_defs)

lemma demo_second_started_eq:
  "demo_second_started = demo_failed
     \<lparr>audit_sessions := [((42, 1000), demo_second_session)],
      timeout_tasks := [((42, 1000), 0)], auditing_game_ids := {''Steve123''}\<rparr>"
  by (simp add: demo_second_started_def demo_second_session_def demo_failed_eq)

lemma demo_second_started_session:
  "map_of (audit_sessions demo_second_started) (42, 1000) = Some demo_second_session"
  by (simp add: demo_second_started_eq)

lemma demo_history_eq:
  "demo_history =
    \<lparr>audit_records =
      [(42, [\<lparr>rec_user_id = 42, rec_game_id = ''Alex77'', rec_group_id = 1000,
              rec_questions = [''Q1''], rec_answers = [''no idea''],
              rec_score = 3, rec_passed = False, rec_state = None,
              rec_start_time = 1, rec_end_time = 10\<rparr>,
             \<lparr>rec_user_id = 42, rec_game_id = ''Steve123'', rec_group_id = 1000,
              rec_questions = [''Q1''], rec_answers = [''ask an admin''],
              rec_score = 9, rec_passed = True, rec_state = None,
              rec_start_time = 21, rec_end_time = 30\<rparr>])],
     whitelist = [(''Steve123'', \<lparr>wl_user_id = 42, wl_group_id = 1000, wl_added_by = Audit,
                                 wl_add_time = 30\<rparr>)],
     cooldown = [((42, ''Alex77''), 3610)],
     audit_sessions = [], timeout_tasks = [], auditing_game_ids = {}\<rparr>"
  by (simp add: demo_history_def demo_second_started_eq demo_second_session_def demo_failed_eq
      quick_config_def step_defs parse_defs)

lemma demo_admin_added_eq:
  "demo_admin_added = initial_state
     \<lparr>whitelist := [(''Steve123'', \<lparr>wl_user_id = 42, wl_group_id = 1000, wl_added_by = Admin,
                                    wl_add_time = 0\<rparr>)]\<rparr>"
  by (simp add: demo_admin_added_def handle_admin_add_def add_to_whitelist_def initial_state_def)

lemma check_cooldown_frame:
  "whitelist (snd (check_cooldown s now u g)) = whitelist s"
  "audit_sessions (snd (check_cooldown s now u g)) = audit_sessions s"
  "auditing_game_ids (snd (check_cooldown s now u g)) = auditing_game_ids s"
  "audit_records (snd (check_cooldown s now u g)) = audit_records s"
  "timeout_tasks (snd (check_cooldown s now u g)) = timeout_tasks s"
  by (simp_all add: check_cooldown_def Let_def split: option.splits)

lemma check_cooldown_positive:
  "fst (check_cooldown s now u g) > 0 \<Longrightarrow> snd (check_cooldown s now u g) = s"
  by (simp add: check_cooldown_def Let_def split: option.splits if_splits)

lemma check_cooldown_ledger:
  "cooldown (snd (check_cooldown s now u g)) = cooldown s
   \<or> (\<exists>expiry. map_of (cooldown s) (u, g) = Some expiry \<and> expiry \<le> now
         \<and> cooldown (snd (check_cooldown s now u g)) = AList.delete (u, g) (cooldown s))"
  by (auto simp add: check_cooldown_def Let_def split: option.splits)

lemma is_in_whitelist_cooldown [simp]:
  "is_in_whitelist (snd (check_cooldown s now u g)) game = is_in_whitelist s game"
  by (simp add: is_in_whitelist_def check_cooldown_frame)

lemma count_cooldown [simp]:
  "get_user_whitelist_count (snd (check_cooldown s now u g)) uid = get_user_whitelist_count s uid"
  by (simp add: get_user_whitelist_count_def check_cooldown_frame)

lemma start_state:
  "fst (snd (handle_whitelist_command cfg s now uid gid msg)) = s
   \<or> fst (snd (handle_whitelist_command cfg s now uid gid msg))
       = snd (check_cooldown s now uid (strip msg))"
  by (simp add: handle_whitelist_command_def Let_def split_beta)

lemma start_early:
  "fst (handle_whitelist_command cfg s now uid gid msg)
      \<in> {NotInGroup, GroupNotSupported, MissingGameId, BadGameIdFormat}
     \<Longrightarrow> fst (snd (handle_whitelist_command cfg s now uid gid msg)) = s"
  by (auto simp add: handle_whitelist_command_def Let_def split_beta split: if_splits)

lemma start_cooldown:
  "fst (handle_whitelist_command cfg s now uid gid msg) = CooldownActive h m
     \<Longrightarrow> fst (snd (handle_whitelist_command cfg s now uid gid msg)) = s"
  using check_cooldown_positive [of s now uid "strip msg"]
  by (auto simp add: handle_whitelist_command_def Let_def split_beta split: if_splits)

lemma valid_nonempty: "is_valid_game_id g \<Longrightarrow> g \<noteq> []"
  by (auto simp: is_valid_game_id_def)

lemma start_quota:
  assumes "int (get_user_whitelist_count s uid) \<ge> max_whitelist_per_qq cfg"
  shows "snd (snd (handle_whitelist_command cfg s now uid gid msg)) = None"
    and "fst (handle_whitelist_command cfg s now uid gid msg) \<noteq> RequestReceived uid (strip msg)"
  using assms
  by (simp_all add: handle_whitelist_command_def Let_def split_beta check_cooldown_frame)

lemma start_quota_reply:
  assumes "int (get_user_whitelist_count s uid) \<ge> max_whitelist_per_qq cfg"
    and "gid \<noteq> 0" and "is_group_allowed cfg gid" and "is_valid_game_id (strip msg)"
    and "fst (check_cooldown s now uid (strip msg)) \<le> 0"
    and "\<not> is_in_whitelist s (strip msg)"
  shows "fst (handle_whitelist_command cfg s now uid gid msg) =
           QuotaReached (get_user_whitelist_count s uid) (max_whitelist_per_qq cfg)"
  using assms valid_nonempty [of "strip msg"]
  by (simp add: handle_whitelist_command_def Let_def split_beta check_cooldown_frame)

lemma count_admin_flag:
  "get_user_whitelist_count (add_to_whitelist s t g uid gid admin) u =
   get_user_whitelist_count (add_to_whitelist s t g uid gid (\<not> admin)) u"
proof -
  have "length (filter (\<lambda>(game, info). wl_user_id info = u)
          (AList.update g \<lparr>wl_user_id = uid, wl_group_id = gid, wl_added_by = a, wl_add_time = t\<rparr> al))
      = length (filter (\<lambda>(game, info). wl_user_id info = u)
          (AList.update g \<lparr>wl_user_id = uid, wl_group_id = gid, wl_added_by = b, wl_add_time = t\<rparr> al))"
    for a b al
    by (induction al) auto
  then show ?thesis
    by (simp add: get_user_whitelist_count_def add_to_whitelist_def)
qed

lemma remove_session_frame:
  "cooldown (remove_session key s) = cooldown s"
  "whitelist (remove_session key s) = whitelist s"
  "audit_records (remove_session key s) = audit_records s"
  by (simp_all add: remove_session_def cancel_timeout_def Let_def split: option.splits)

lemma fold_remove_session_frame:
  "cooldown (fold remove_session ks s) = cooldown s
   \<and> whitelist (fold remove_session ks s) = whitelist s
   \<and> audit_records (fold remove_session ks s) = audit_records s"
  by (induction ks arbitrary: s) (simp_all add: remove_session_frame)

lemma complete_audit_failed:
  assumes "map_of (audit_sessions s) key = Some sess"
    and "evaluate_answers cfg ai (questions sess) (answers sess) < pass_score cfg"
  shows "cooldown (fst (complete_audit cfg s now key uid gid ai rcon)) =
           AList.update (uid, game_id sess) (now + of_int (cooldown_seconds cfg)) (cooldown s)"
    and "whitelist (fst (complete_audit cfg s now key uid gid ai rcon)) = whitelist s"
  using assms
  by (simp_all add: complete_audit_def Let_def set_cooldown_def save_audit_record_def
      cancel_timeout_def)

lemma complete_audit_passed:
  assumes "map_of (audit_sessions s) key = Some sess"
    and "evaluate_answers cfg ai (questions sess) (answers sess) \<ge> pass_score cfg"
  shows "whitelist (fst (complete_audit cfg s now key uid gid ai rcon)) =
           AList.update (game_id sess)
             \<lparr>wl_user_id = uid, wl_group_id = gid, wl_added_by = Audit, wl_add_time = now\<rparr>
             (whitelist s)"
    and "cooldown (fst (complete_audit cfg s now key uid gid ai rcon)) = cooldown s"
  using assms
  by (simp_all add: complete_audit_def Let_def add_to_whitelist_def save_audit_record_def
      cancel_timeout_def)

lemma timeout_entries:
  assumes "map_of (audit_sessions s) key = Some sess"
    and "length (answers sess) = idx"
  shows "cooldown (handle_question_timeout cfg s now key uid gid idx) =
           AList.update (uid, game_id sess) (now + of_int (cooldown_seconds cfg)) (cooldown s)"
    and "whitelist (handle_question_timeout cfg s now key uid gid idx) = whitelist s"
  using assms
  by (simp_all add: handle_question_timeout_def Let_def set_cooldown_def save_audit_record_def
      cancel_timeout_def)


lemma demo_started_eq:
  "demo_started = initial_state
     \<lparr>audit_sessions :=
        [((42, 1000),
          \<lparr>user_id = 42, game_id = ''Steve123'', group_id = 1000, questions = demo_questions,
           answers = [], current_question_index = 0, start_time = 0,
           last_activity_time = 0, current_question_start_time = 0\<rparr>)],
      timeout_tasks := [((42, 1000), 0)], auditing_game_ids := {''Steve123''}\<rparr>"
  by (simp add: demo_started_def initial_state_def demo_questions_def)

lemma demo_one_answer_eq:
  "demo_one_answer = initial_state
     \<lparr>audit_sessions :=
        [((42, 1000),
          \<lparr>user_id = 42, game_id = ''Steve123'', group_id = 1000, questions = demo_questions,
           answers = [''first''], current_question_index = 0, start_time = 0,
           last_activity_time = 10, current_question_start_time = 10\<rparr>)],
      timeout_tasks := [((42, 1000), 1)], auditing_game_ids := {''Steve123''}\<rparr>"
  by (simp add: demo_one_answer_def demo_started_eq initial_state_def demo_questions_def
      demo_config_def step_defs)

lemma demo_two_answers_eq:
  "demo_two_answers = initial_state
     \<lparr>audit_sessions :=
        [((42, 1000),
          \<lparr>user_id = 42, game_id = ''Steve123'', group_id = 1000, questions = demo_questions,
           answers = [''first'', ''second''], current_question_index = 0, start_time = 0,
           last_activity_time = 20, current_question_start_time = 20\<rparr>)],
      timeout_tasks := [((42, 1000), 2)], auditing_game_ids := {''Steve123''}\<rparr>"
  by (simp add: demo_two_answers_def demo_one_answer_eq initial_state_def demo_questions_def
      demo_config_def step_defs)

lemma timeout_sessions:
  "map_of (audit_sessions (handle_question_timeout cfg s now key uid gid idx)) =
     (case map_of (audit_sessions s) key of
        None \<Rightarrow> map_of (audit_sessions s)
      | Some sess \<Rightarrow> if length (answers sess) = idx then (map_of (audit_sessions s))(key := None)
                     else map_of (audit_sessions s))"
  by (simp add: handle_question_timeout_def Let_def set_cooldown_def save_audit_record_def
      cancel_timeout_def delete_conv' split: option.splits)

lemma complete_sessions:
  "map_of (audit_sessions (fst (complete_audit cfg s now key uid gid ai rcon))) =
     (map_of (audit_sessions s))(key := None)"
  by (auto simp add: complete_audit_def Let_def set_cooldown_def save_audit_record_def
      add_to_whitelist_def cancel_timeout_def delete_conv' split: option.splits)

lemma check_timeout_sessions:
  "map_of (audit_sessions (check_question_timeout cfg s now key uid gid idx)) k = Some sess'
     \<Longrightarrow> map_of (audit_sessions s) k = Some sess'"
  by (auto simp add: check_question_timeout_def timeout_sessions split: option.splits if_splits)

lemma accept_sessions:
  "map_of (audit_sessions (accept_answer s now key sess answer)) =
     (map_of (audit_sessions s))(key \<mapsto> sess\<lparr>answers := answers sess @ [answer], last_activity_time := now\<rparr>)"
  by (simp add: accept_answer_def cancel_timeout_def update_conv')

lemma answer_sessions:
  assumes "map_of (audit_sessions (snd (handle_answer_command cfg s now uid gid msg ai))) k = Some sess'"
  shows "\<exists>sess. map_of (audit_sessions s) k = Some sess
           \<and> current_question_index sess' = current_question_index sess
           \<and> (length (answers sess') = length (answers sess)
               \<or> k = (uid, gid) \<and> length (answers sess') = Suc (length (answers sess)))"
  using assms
  by (auto simp add: handle_answer_command_def Let_def timeout_sessions complete_sessions
      accept_sessions update_conv' split: option.splits if_splits)

lemma timeout_noop:
  "\<not> (\<exists>sess. map_of (audit_sessions s) key = Some sess \<and> length (answers sess) = idx
         \<and> game_id sess \<in> auditing_game_ids s)
     \<Longrightarrow> check_question_timeout cfg s now key uid gid idx = s"
  by (auto simp add: check_question_timeout_def split: option.splits)

lemma timeout_absent:
  "map_of (audit_sessions s) key = None \<Longrightarrow> check_question_timeout cfg s now key uid gid idx = s"
  by (simp add: check_question_timeout_def)

lemma timeout_effect:
  assumes "map_of (audit_sessions s) key = Some sess" and "length (answers sess) = idx"
    and "game_id sess \<in> auditing_game_ids s"
  shows "check_question_timeout cfg s now key uid gid idx =
     s\<lparr>audit_records := AList.update uid
          ((case map_of (audit_records s) uid of None \<Rightarrow> [] | Some rs \<Rightarrow> rs) @
           [\<lparr>rec_user_id = uid, rec_game_id = game_id sess, rec_group_id = gid,
             rec_questions = questions sess, rec_answers = answers sess @ [[]],
             rec_score = 0, rec_passed = False, rec_state = Some (Suc idx),
             rec_start_time = start_time sess, rec_end_time = now\<rparr>])
          (audit_records s),
       cooldown := AList.update (uid, game_id sess) (now + of_int (cooldown_seconds cfg)) (cooldown s),
       audit_sessions := AList.delete key (audit_sessions s),
       timeout_tasks := AList.delete key (timeout_tasks s),
       auditing_game_ids := auditing_game_ids s - {game_id sess}\<rparr>"
  using assms
  by (simp add: check_question_timeout_def handle_question_timeout_def Let_def set_cooldown_def
      save_audit_record_def cancel_timeout_def)

lemma answer_absent:
  "map_of (audit_sessions s) (uid, gid) = None
     \<Longrightarrow> handle_answer_command cfg s now uid gid msg ai = (Some NoActiveSession, s)"
  by (simp add: handle_answer_command_def)

lemma timeout_after_accept:
  assumes "map_of (audit_sessions s) key = Some sess" and "length (answers sess) = idx"
  shows "check_question_timeout cfg (accept_answer s t key sess answer) now key uid gid idx
           = accept_answer s t key sess answer"
  by (rule timeout_noop) (simp add: accept_sessions assms)

lemma timeout_after_answer:
  assumes "map_of (audit_sessions s) (uid, gid) = Some sess" and "length (answers sess) = idx"
    and "fst (handle_answer_command cfg s t uid gid msg ai) \<notin> {Some MissingAnswer, Some AnswerTooLong}"
  shows "check_question_timeout cfg (snd (handle_answer_command cfg s t uid gid msg ai)) now
           (uid, gid) uid gid idx = snd (handle_answer_command cfg s t uid gid msg ai)"
  using assms
  by (intro timeout_noop)
     (auto simp add: handle_answer_command_def Let_def timeout_sessions complete_sessions
        accept_sessions update_conv' split: if_splits)

lemma prepare_creates:
  "qs \<noteq> [] \<Longrightarrow>
     map_of (audit_sessions (prepare_and_send_first_question s now (PrepareTask key uid gid game) (Some qs))) key
       = Some \<lparr>user_id = uid, game_id = game, group_id = gid, questions = qs,
               answers = [], current_question_index = 0, start_time = now,
               last_activity_time = now, current_question_start_time = now\<rparr>"
  by (simp add: update_conv')

lemma answer_recorded:
  assumes "map_of (audit_sessions s) (uid, gid) = Some sess"
    and "map_of (audit_sessions (snd (handle_answer_command cfg s now uid gid msg ai))) (uid, gid) = Some sess'"
    and "fst (handle_answer_command cfg s now uid gid msg ai) \<notin> {Some MissingAnswer, Some AnswerTooLong}"
  shows "length (answers sess') = Suc (length (answers sess))
     \<and> current_question_index sess' = current_question_index sess"
  using assms
  by (auto simp add: handle_answer_command_def Let_def timeout_sessions complete_sessions
      accept_sessions update_conv' split: if_splits)

section \<open>Scoring stays in range (C7)\<close>



section \<open>Rejected answers change nothing (C10)\<close>



section \<open>Order of the checks of a start request (C4)\<close>

text \<open>
  C4, as the claim states it, fails. The claim puts the check for an active session of
  the requester third and the cooldown check sixth. In \<open>demo_second_started\<close>
  requester 42 has a session in group 1000 and a cooldown for \<open>''Alex77''\<close> that runs
  until 3610; the group is authorized and the identifier well formed. At time 30 the
  request for \<open>''Alex77''\<close> is answered with the cooldown error (0 hours 59 minutes),
  not with the error of the session check.
\<close>

theorem C4_order_counterexample:
  "is_group_allowed quick_config 1000 \<and> is_valid_game_id (strip ''Alex77'')
   \<and> map_of (audit_sessions demo_second_started) (42, 1000) \<noteq> None
   \<and> fst (handle_whitelist_command quick_config demo_second_started 30 42 1000 ''Alex77'')
       = CooldownActive 0 59"
  by (simp add: demo_second_started_eq demo_failed_eq quick_config_def start_defs)

text \<open>
  C4, amended. The reply of \<^verbatim>\<open>handle_whitelist_command\<close> is the error of the first
  failing check in the order of the source: group given, group authorized, identifier
  not empty, identifier well formed, no cooldown of a full second or more, identifier
  not on the whitelist, quota not reached, identifier not locked, no session of the
  requester in this group. When no check fails the request is acknowledged.
\<close>

theorem C4_first_failing_check:
  "fst (handle_whitelist_command cfg s now uid gid command_text) =
     (case failing_checks cfg s now uid gid command_text of
        [] \<Rightarrow> RequestReceived uid (strip command_text)
      | e # es \<Rightarrow> e)"
  by (simp add: handle_whitelist_command_def failing_checks_def Let_def split_beta
      check_cooldown_frame)

text \<open>
  An instance with two failing checks: requester 42, who holds a session, asks for
  the identifier that this session has locked; the lock error comes first.
\<close>

theorem C4_first_failing_check_witness:
  "failing_checks quick_config demo_second_started 30 42 1000 ''Steve123''
     = [BeingAudited ''Steve123'', SessionInProgress]
   \<and> fst (handle_whitelist_command quick_config demo_second_started 30 42 1000 ''Steve123'')
     = BeingAudited ''Steve123''"
proof -
  have checks: "failing_checks quick_config demo_second_started 30 42 1000 ''Steve123''
     = [BeingAudited ''Steve123'', SessionInProgress]"
    by (simp add: failing_checks_def demo_second_started_eq demo_second_session_def
        demo_failed_eq quick_config_def start_defs)
  with C4_first_failing_check [of quick_config demo_second_started 30 42 1000 "''Steve123''"]
  show ?thesis by simp
qed

section \<open>Failed start requests and the state (C9)\<close>

text \<open>
  C9, as the claim states it, fails. In \<open>demo_history\<close> requester 42 owns one
  whitelisted identifier, which is the quota, and the cooldown for \<open>''Alex77''\<close> ran out
  at 3610. The request for \<open>''Alex77''\<close> at time 5000 fails with the quota error, and
  the cooldown ledger has lost its entry.
\<close>

theorem C9_state_counterexample:
  "fst (handle_whitelist_command quick_config demo_history 5000 42 1000 ''Alex77'')
     = QuotaReached 1 1
   \<and> cooldown demo_history = [((42, ''Alex77''), 3610)]
   \<and> cooldown (fst (snd (handle_whitelist_command quick_config demo_history 5000 42 1000
        ''Alex77''))) = []"
  by (simp add: demo_history_eq quick_config_def start_defs)

text \<open>
  C9, amended. Whatever \<^verbatim>\<open>handle_whitelist_command\<close> replies, the sessions, the lock
  set, the whitelist, the audit records and the timeout tasks are as before. The
  cooldown ledger is as before too, unless the entry of the requester and the
  identifier had run out, in which case that entry is deleted. When the reply is one of
  the errors before the cooldown check, or the cooldown error, the whole state is
  unchanged.
\<close>

theorem C9_start_state:
  assumes "handle_whitelist_command cfg s now uid gid command_text = (r, s', t)"
  shows "audit_sessions s' = audit_sessions s \<and> auditing_game_ids s' = auditing_game_ids s
     \<and> whitelist s' = whitelist s \<and> audit_records s' = audit_records s
     \<and> timeout_tasks s' = timeout_tasks s
     \<and> (cooldown s' = cooldown s
         \<or> (\<exists>expiry. map_of (cooldown s) (uid, strip command_text) = Some expiry
               \<and> expiry \<le> now
               \<and> cooldown s' = AList.delete (uid, strip command_text) (cooldown s)))
     \<and> (r \<in> {NotInGroup, GroupNotSupported, MissingGameId, BadGameIdFormat} \<longrightarrow> s' = s)
     \<and> (\<forall>h m. r = CooldownActive h m \<longrightarrow> s' = s)"
proof -
  have s': "s' = fst (snd (handle_whitelist_command cfg s now uid gid command_text))"
    and r: "r = fst (handle_whitelist_command cfg s now uid gid command_text)"
    using assms by simp_all
  from start_state [of cfg s now uid gid command_text] s'
  have either: "s' = s \<or> s' = snd (check_cooldown s now uid (strip command_text))" by simp
  then have frame: "audit_sessions s' = audit_sessions s
     \<and> auditing_game_ids s' = auditing_game_ids s
     \<and> whitelist s' = whitelist s \<and> audit_records s' = audit_records s
     \<and> timeout_tasks s' = timeout_tasks s"
    by (auto simp: check_cooldown_frame)
  from either check_cooldown_ledger [of s now uid "strip command_text"]
  have ledger: "cooldown s' = cooldown s
         \<or> (\<exists>expiry. map_of (cooldown s) (uid, strip command_text) = Some expiry
               \<and> expiry \<le> now
               \<and> cooldown s' = AList.delete (uid, strip command_text) (cooldown s))"
    by auto
  from start_early [of cfg s now uid gid command_text] r s'
  have early: "r \<in> {NotInGroup, GroupNotSupported, MissingGameId, BadGameIdFormat} \<longrightarrow> s' = s"
    by simp
  from start_cooldown [of cfg s now uid gid command_text] r s'
  have active: "\<forall>h m. r = CooldownActive h m \<longrightarrow> s' = s" by simp
  from frame ledger early active show ?thesis by blast
qed

text \<open>
  An instance: requester 43 asks for the identifier that the session of requester 42
  has locked; the request fails and the state is the same.
\<close>

theorem C9_start_state_witness:
  "fst (handle_whitelist_command quick_config demo_second_started 30 43 1000 ''Steve123'')
     = BeingAudited ''Steve123''
   \<and> audit_sessions (fst (snd (handle_whitelist_command quick_config demo_second_started 30 43
        1000 ''Steve123''))) = audit_sessions demo_second_started
   \<and> whitelist (fst (snd (handle_whitelist_command quick_config demo_second_started 30 43
        1000 ''Steve123''))) = whitelist demo_second_started
   \<and> auditing_game_ids (fst (snd (handle_whitelist_command quick_config demo_second_started 30 43
        1000 ''Steve123''))) = {''Steve123''}"
proof -
  have reply: "fst (handle_whitelist_command quick_config demo_second_started 30 43 1000
      ''Steve123'') = BeingAudited ''Steve123''"
    by (simp add: demo_second_started_eq demo_second_session_def demo_failed_eq
        quick_config_def start_defs)
  have triple: "handle_whitelist_command quick_config demo_second_started 30 43 1000 ''Steve123''
      = (fst (handle_whitelist_command quick_config demo_second_started 30 43 1000 ''Steve123''),
         fst (snd (handle_whitelist_command quick_config demo_second_started 30 43 1000
           ''Steve123'')),
         snd (snd (handle_whitelist_command quick_config demo_second_started 30 43 1000
           ''Steve123'')))"
    by simp
  have "auditing_game_ids demo_second_started = {''Steve123''}"
    by (simp add: demo_second_started_eq)
  with C9_start_state [OF triple] reply show ?thesis by simp
qed

section \<open>Quota and admin override (C8)\<close>

text \<open>
  C8, as the claim states it, fails. In \<open>demo_admin_added\<close> user 42 owns one entry,
  written by admin override, and the quota is 1. The request of user 42 for
  \<open>''Steve123''\<close>, the identifier of that entry, fails with the error of the whitelist
  check, which the source makes before the quota check, and not with the quota error.
\<close>

theorem C8_quota_counterexample:
  "max_whitelist_per_qq demo_config \<le> int (get_user_whitelist_count demo_admin_added 42)
   \<and> fst (handle_whitelist_command demo_config demo_admin_added 5 42 1000 ''Steve123'')
       = AlreadyWhitelisted ''Steve123''"
  by (simp add: demo_admin_added_eq initial_state_def demo_config_def start_defs)

text \<open>
  C8, amended. A requester whose number of whitelist entries has reached the quota
  never gets a start request accepted: no preparation task is created and the reply is
  not the acknowledgement. The reply is the quota error whenever the checks made before
  the quota check pass (group given and authorized, identifier well formed, no cooldown
  of a full second or more, identifier not on the whitelist). An entry written by
  \<^verbatim>\<open>wl_admin add\<close> counts like one written by a passed audit.
\<close>

theorem C8_quota_blocks_start:
  assumes "max_whitelist_per_qq cfg \<le> int (get_user_whitelist_count s uid)"
  shows "snd (snd (handle_whitelist_command cfg s now uid gid command_text)) = None
     \<and> fst (handle_whitelist_command cfg s now uid gid command_text)
         \<noteq> RequestReceived uid (strip command_text)
     \<and> (gid \<noteq> 0 \<and> is_group_allowed cfg gid \<and> is_valid_game_id (strip command_text)
          \<and> fst (check_cooldown s now uid (strip command_text)) \<le> 0
          \<and> \<not> is_in_whitelist s (strip command_text)
        \<longrightarrow> fst (handle_whitelist_command cfg s now uid gid command_text)
              = QuotaReached (get_user_whitelist_count s uid) (max_whitelist_per_qq cfg))
     \<and> get_user_whitelist_count (snd (handle_admin_add s0 t uid gid' game rcon)) uid
         = get_user_whitelist_count (add_to_whitelist s0 t game uid gid' False) uid"
proof -
  have admin: "get_user_whitelist_count (snd (handle_admin_add s0 t uid gid' game rcon)) uid
         = get_user_whitelist_count (add_to_whitelist s0 t game uid gid' False) uid"
    using count_admin_flag [of s0 t game uid gid' True uid]
    by (simp add: handle_admin_add_def)
  from assms start_quota [of cfg s uid now gid command_text]
    start_quota_reply [of cfg s uid gid command_text now] admin
  show ?thesis by simp
qed

text \<open>
  An instance: with the admin-written entry user 42 is at the quota; the request for
  another identifier gets the quota error.
\<close>

theorem C8_quota_blocks_start_witness:
  "max_whitelist_per_qq demo_config \<le> int (get_user_whitelist_count demo_admin_added 42)
   \<and> snd (snd (handle_whitelist_command demo_config demo_admin_added 5 42 1000 ''Alex77'')) = None
   \<and> fst (handle_whitelist_command demo_config demo_admin_added 5 42 1000 ''Alex77'')
       = QuotaReached 1 1"
proof -
  have full: "max_whitelist_per_qq demo_config \<le> int (get_user_whitelist_count demo_admin_added 42)"
    by (simp add: demo_admin_added_eq initial_state_def demo_config_def
        get_user_whitelist_count_def)
  have pre: "(1000::int) \<noteq> 0 \<and> is_group_allowed demo_config 1000
      \<and> is_valid_game_id (strip ''Alex77'')
      \<and> fst (check_cooldown demo_admin_added 5 42 (strip ''Alex77'')) \<le> 0
      \<and> \<not> is_in_whitelist demo_admin_added (strip ''Alex77'')"
    by (simp add: demo_admin_added_eq initial_state_def demo_config_def start_defs)
  have count: "get_user_whitelist_count demo_admin_added 42 = 1"
    by (simp add: demo_admin_added_eq initial_state_def get_user_whitelist_count_def)
  from C8_quota_blocks_start [OF full, of 5 1000 "''Alex77''"] pre count full
  show ?thesis by (simp add: demo_config_def)
qed

section \<open>Entries written when an interview ends (C3)\<close>

text \<open>
  C3, as the claim states it, fails for the idle-session sweep. The session of
  \<open>demo_started\<close> had its last activity at time 0; the sweep at time 2000 removes it,
  and neither a cooldown entry nor an audit record is written.
\<close>

theorem C3_sweep_counterexample:
  "map_of (audit_sessions demo_started) (42, 1000) \<noteq> None
   \<and> audit_sessions (cleanup_expired_sessions demo_started 2000) = []
   \<and> cooldown (cleanup_expired_sessions demo_started 2000) = []
   \<and> audit_records (cleanup_expired_sessions demo_started 2000) = []"
  by (simp add: demo_started_def initial_state_def demo_questions_def
      cleanup_expired_sessions_def expired_sessions_def remove_session_def cancel_timeout_def)

text \<open>
  C3, amended. For a live session: a completion with a score below the pass mark
  writes the cooldown entry of the requester and the identifier and leaves the
  whitelist alone; a completion with a passing score writes the whitelist entry of the
  identifier and leaves the cooldown ledger alone; the timeout of the outstanding
  question writes the cooldown entry and leaves the whitelist alone, and a firing
  timeout task of that question with the lock held is this timeout. The idle-session
  sweep writes neither a cooldown entry nor a whitelist entry nor an audit record.
\<close>

theorem C3_terminal_entries:
  assumes "map_of (audit_sessions s) key = Some sess"
  shows "(evaluate_answers cfg ai (questions sess) (answers sess) < pass_score cfg \<longrightarrow>
            cooldown (fst (complete_audit cfg s now key uid gid ai rcon))
              = AList.update (uid, game_id sess) (now + of_int (cooldown_seconds cfg)) (cooldown s)
            \<and> whitelist (fst (complete_audit cfg s now key uid gid ai rcon)) = whitelist s)
     \<and> (pass_score cfg \<le> evaluate_answers cfg ai (questions sess) (answers sess) \<longrightarrow>
            whitelist (fst (complete_audit cfg s now key uid gid ai rcon))
              = AList.update (game_id sess)
                  \<lparr>wl_user_id = uid, wl_group_id = gid, wl_added_by = Audit, wl_add_time = now\<rparr>
                  (whitelist s)
            \<and> cooldown (fst (complete_audit cfg s now key uid gid ai rcon)) = cooldown s)
     \<and> cooldown (handle_question_timeout cfg s now key uid gid (length (answers sess)))
          = AList.update (uid, game_id sess) (now + of_int (cooldown_seconds cfg)) (cooldown s)
     \<and> whitelist (handle_question_timeout cfg s now key uid gid (length (answers sess)))
          = whitelist s
     \<and> (game_id sess \<in> auditing_game_ids s \<longrightarrow>
          check_question_timeout cfg s now key uid gid (length (answers sess))
            = handle_question_timeout cfg s now key uid gid (length (answers sess)))
     \<and> cooldown (cleanup_expired_sessions s now) = cooldown s
     \<and> whitelist (cleanup_expired_sessions s now) = whitelist s
     \<and> audit_records (cleanup_expired_sessions s now) = audit_records s"
proof -
  have fire: "game_id sess \<in> auditing_game_ids s \<longrightarrow>
          check_question_timeout cfg s now key uid gid (length (answers sess))
            = handle_question_timeout cfg s now key uid gid (length (answers sess))"
    using assms by (simp add: check_question_timeout_def)
  have sweep: "cooldown (cleanup_expired_sessions s now) = cooldown s
     \<and> whitelist (cleanup_expired_sessions s now) = whitelist s
     \<and> audit_records (cleanup_expired_sessions s now) = audit_records s"
    by (simp add: cleanup_expired_sessions_def fold_remove_session_frame)
  from complete_audit_failed [OF assms] complete_audit_passed [OF assms]
    timeout_entries [OF assms refl] fire sweep
  show ?thesis by simp
qed

text \<open>
  An instance: the question of the session of \<open>demo_second_started\<close> times out at
  time 300; the ledger gets the entry of 42 and \<open>''Steve123''\<close> next to the older one.
\<close>

theorem C3_terminal_entries_witness:
  "cooldown (check_question_timeout quick_config demo_second_started 300 (42, 1000) 42 1000 0)
     = [((42, ''Alex77''), 3610), ((42, ''Steve123''), 3900)]
   \<and> whitelist (check_question_timeout quick_config demo_second_started 300 (42, 1000) 42 1000 0)
     = []"
proof -
  have held: "game_id demo_second_session \<in> auditing_game_ids demo_second_started"
    by (simp add: demo_second_started_eq demo_second_session_def)
  have len: "length (answers demo_second_session) = 0"
    by (simp add: demo_second_session_def)
  from C3_terminal_entries [OF demo_second_started_session,
      of quick_config NoOpenAI 300 42 1000 NoRcon] held len
  show ?thesis
    by (simp add: demo_second_started_eq demo_second_session_def demo_failed_eq quick_config_def)
qed

section \<open>The local whitelist entry of a passed interview (C6)\<close>

text \<open>
  C6. When \<^verbatim>\<open>_complete_audit\<close> runs for a live session and the score reaches the pass
  mark, the whitelist afterwards maps the identifier of the session to an entry of the
  requester, written by audit at the time of completion. This holds for every RCON
  client: absent, not connected, raising, returning nothing or returning a text.
\<close>

theorem C6_local_entry:
  assumes "map_of (audit_sessions s) key = Some sess"
    and "pass_score cfg \<le> evaluate_answers cfg ai (questions sess) (answers sess)"
  shows "map_of (whitelist (fst (complete_audit cfg s now key uid gid ai rcon))) (game_id sess) =
           Some \<lparr>wl_user_id = uid, wl_group_id = gid, wl_added_by = Audit, wl_add_time = now\<rparr>"
  using assms
  by (simp add: complete_audit_def Let_def add_to_whitelist_def save_audit_record_def
      cancel_timeout_def update_conv')

text \<open>
  An instance: the answer of \<open>demo_awaiting_score\<close> is scored 9 of 10, the RCON client
  is connected and raises on every command; the entry is there all the same.
\<close>

theorem C6_local_entry_witness:
  "add_to_server_whitelist ''Steve123'' (Rcon True (\<lambda>command. Raises)) = False
   \<and> map_of (whitelist (fst (complete_audit quick_config demo_awaiting_score 31 (42, 1000) 42 1000
        (OpenAI (\<lambda>qa attempt. Responds ''9'')) (Rcon True (\<lambda>command. Raises))))) ''Steve123''
      = Some \<lparr>wl_user_id = 42, wl_group_id = 1000, wl_added_by = Audit, wl_add_time = 31\<rparr>"
proof -
  let ?sess = "demo_second_session\<lparr>answers := [''ask an admin''], last_activity_time := 30\<rparr>"
  have live: "map_of (audit_sessions demo_awaiting_score) (42, 1000) = Some ?sess"
    by (simp add: demo_awaiting_score_def accept_answer_def cancel_timeout_def
        demo_second_started_eq demo_second_session_def)
  have pass: "pass_score quick_config
      \<le> evaluate_answers quick_config (OpenAI (\<lambda>qa attempt. Responds ''9''))
           (questions ?sess) (answers ?sess)"
    by (simp add: quick_config_def max_retries_def upt_rec total_score_def parse_defs)
  from C6_local_entry [OF live pass, of 31 42 1000 "Rcon True (\<lambda>command. Raises)"]
  show ?thesis by (simp add: demo_second_session_def)
qed

section \<open>Two interleaved start requests (C1)\<close>

text \<open>
  C1. The claim is that an identifier belongs to at most one live session and that of
  two interleaved start requests for one identifier exactly one succeeds. The source
  checks the lock in \<^verbatim>\<open>handle_whitelist_command\<close> and takes it in the detached task,
  after the questions have been fetched. In the run below both requests for
  \<open>''Alex''\<close> are acknowledged, and afterwards the sessions of requesters 42 and 43 are
  both live with that identifier, the lock set holding it once.
\<close>

theorem C1_interleaved_starts:
  "fst demo_race_first = RequestReceived 42 ''Alex''
   \<and> fst demo_race_second = RequestReceived 43 ''Alex''
   \<and> map (\<lambda>(key, sess). (key, game_id sess)) (audit_sessions demo_race_state)
       = [((42, 1000), ''Alex''), ((43, 1000), ''Alex'')]
   \<and> auditing_game_ids demo_race_state = {''Alex''}"
  by (simp add: demo_race_state_def demo_race_second_def demo_race_first_def demo_config_def
      initial_state_def demo_questions_def start_defs)

section \<open>The firing of a timeout task (C2)\<close>

text \<open>
  C2. The transition of a timeout task armed for a session key and a question index
  changes nothing unless the session exists, the number of its answers is that index
  and its identifier is in the lock set. When these hold it appends the empty answer,
  records score 0 with the state of the timed-out question, sets the cooldown, drops
  the timeout entry, removes the session and releases the lock. After that every
  further firing for the key and every answer of the requester is without effect
  (the answer is told that there is no session): the session ends once and the lock
  is released once. In the other order, once an answer is recorded, the timeout task
  of that question changes nothing, both while the score is awaited (the state of
  \<open>accept_answer\<close>) and after \<^verbatim>\<open>handle_answer_command\<close> has returned.
\<close>

theorem C2_timeout_guard:
  "(\<not> (\<exists>sess. map_of (audit_sessions s) key = Some sess \<and> length (answers sess) = idx
          \<and> game_id sess \<in> auditing_game_ids s)
      \<longrightarrow> check_question_timeout cfg s now key uid gid idx = s)
   \<and> (\<forall>sess. map_of (audit_sessions s) key = Some sess \<and> length (answers sess) = idx
          \<and> game_id sess \<in> auditing_game_ids s \<longrightarrow>
         check_question_timeout cfg s now key uid gid idx =
           s\<lparr>audit_records := AList.update uid
                ((case map_of (audit_records s) uid of None \<Rightarrow> [] | Some rs \<Rightarrow> rs) @
                 [\<lparr>rec_user_id = uid, rec_game_id = game_id sess, rec_group_id = gid,
                   rec_questions = questions sess, rec_answers = answers sess @ [[]],
                   rec_score = 0, rec_passed = False, rec_state = Some (Suc idx),
                   rec_start_time = start_time sess, rec_end_time = now\<rparr>])
                (audit_records s),
             cooldown := AList.update (uid, game_id sess)
                (now + of_int (cooldown_seconds cfg)) (cooldown s),
             audit_sessions := AList.delete key (audit_sessions s),
             timeout_tasks := AList.delete key (timeout_tasks s),
             auditing_game_ids := auditing_game_ids s - {game_id sess}\<rparr>
         \<and> map_of (audit_sessions (check_question_timeout cfg s now key uid gid idx)) key = None
         \<and> game_id sess \<notin> auditing_game_ids (check_question_timeout cfg s now key uid gid idx)
         \<and> (\<forall>now' idx'.
               check_question_timeout cfg (check_question_timeout cfg s now key uid gid idx)
                 now' key uid gid idx' = check_question_timeout cfg s now key uid gid idx)
         \<and> (key = (uid, gid) \<longrightarrow>
              (\<forall>now' msg ai.
                 handle_answer_command cfg (check_question_timeout cfg s now key uid gid idx)
                   now' uid gid msg ai
                 = (Some NoActiveSession, check_question_timeout cfg s now key uid gid idx))))
   \<and> (\<forall>sess t answer. map_of (audit_sessions s) key = Some sess \<and> length (answers sess) = idx \<longrightarrow>
         check_question_timeout cfg (accept_answer s t key sess answer) now key uid gid idx
           = accept_answer s t key sess answer)
   \<and> (\<forall>sess t msg ai. key = (uid, gid) \<and> map_of (audit_sessions s) key = Some sess
          \<and> length (answers sess) = idx
          \<and> fst (handle_answer_command cfg s t uid gid msg ai)
               \<notin> {Some MissingAnswer, Some AnswerTooLong} \<longrightarrow>
         check_question_timeout cfg (snd (handle_answer_command cfg s t uid gid msg ai)) now
           key uid gid idx = snd (handle_answer_command cfg s t uid gid msg ai))"
proof (intro conjI allI impI)
  assume "\<not> (\<exists>sess. map_of (audit_sessions s) key = Some sess \<and> length (answers sess) = idx
          \<and> game_id sess \<in> auditing_game_ids s)"
  then show "check_question_timeout cfg s now key uid gid idx = s"
    by (rule timeout_noop)
next
  fix sess
  assume g: "map_of (audit_sessions s) key = Some sess \<and> length (answers sess) = idx
          \<and> game_id sess \<in> auditing_game_ids s"
  then have eff: "check_question_timeout cfg s now key uid gid idx =
           s\<lparr>audit_records := AList.update uid
                ((case map_of (audit_records s) uid of None \<Rightarrow> [] | Some rs \<Rightarrow> rs) @
                 [\<lparr>rec_user_id = uid, rec_game_id = game_id sess, rec_group_id = gid,
                   rec_questions = questions sess, rec_answers = answers sess @ [[]],
                   rec_score = 0, rec_passed = False, rec_state = Some (Suc idx),
                   rec_start_time = start_time sess, rec_end_time = now\<rparr>])
                (audit_records s),
             cooldown := AList.update (uid, game_id sess)
                (now + of_int (cooldown_seconds cfg)) (cooldown s),
             audit_sessions := AList.delete key (audit_sessions s),
             timeout_tasks := AList.delete key (timeout_tasks s),
             auditing_game_ids := auditing_game_ids s - {game_id sess}\<rparr>"
    by (simp add: timeout_effect)
  then show "check_question_timeout cfg s now key uid gid idx =
           s\<lparr>audit_records := AList.update uid
                ((case map_of (audit_records s) uid of None \<Rightarrow> [] | Some rs \<Rightarrow> rs) @
                 [\<lparr>rec_user_id = uid, rec_game_id = game_id sess, rec_group_id = gid,
                   rec_questions = questions sess, rec_answers = answers sess @ [[]],
                   rec_score = 0, rec_passed = False, rec_state = Some (Suc idx),
                   rec_start_time = start_time sess, rec_end_time = now\<rparr>])
                (audit_records s),
             cooldown := AList.update (uid, game_id sess)
                (now + of_int (cooldown_seconds cfg)) (cooldown s),
             audit_sessions := AList.delete key (audit_sessions s),
             timeout_tasks := AList.delete key (timeout_tasks s),
             auditing_game_ids := auditing_game_ids s - {game_id sess}\<rparr>" .
  from eff show gone: "map_of (audit_sessions (check_question_timeout cfg s now key uid gid idx)) key = None"
    by (simp add: delete_conv')
  from eff show "game_id sess \<notin> auditing_game_ids (check_question_timeout cfg s now key uid gid idx)"
    by simp
  fix now' idx'
  from gone show "check_question_timeout cfg (check_question_timeout cfg s now key uid gid idx)
                 now' key uid gid idx' = check_question_timeout cfg s now key uid gid idx"
    by (rule timeout_absent)
next
  fix sess now' msg ai
  assume g: "map_of (audit_sessions s) key = Some sess \<and> length (answers sess) = idx
          \<and> game_id sess \<in> auditing_game_ids s" and k: "key = (uid, gid)"
  then have "map_of (audit_sessions (check_question_timeout cfg s now key uid gid idx)) key = None"
    by (simp add: timeout_effect delete_conv')
  with k show "handle_answer_command cfg (check_question_timeout cfg s now key uid gid idx)
                   now' uid gid msg ai
                 = (Some NoActiveSession, check_question_timeout cfg s now key uid gid idx)"
    by (simp add: answer_absent)
next
  fix sess t answer
  assume "map_of (audit_sessions s) key = Some sess \<and> length (answers sess) = idx"
  then show "check_question_timeout cfg (accept_answer s t key sess answer) now key uid gid idx
           = accept_answer s t key sess answer"
    by (simp add: timeout_after_accept)
next
  fix sess t msg ai
  assume "key = (uid, gid) \<and> map_of (audit_sessions s) key = Some sess
          \<and> length (answers sess) = idx
          \<and> fst (handle_answer_command cfg s t uid gid msg ai)
               \<notin> {Some MissingAnswer, Some AnswerTooLong}"
  then have k: "key = (uid, gid)"
    and live: "map_of (audit_sessions s) (uid, gid) = Some sess"
    and len: "length (answers sess) = idx"
    and taken: "fst (handle_answer_command cfg s t uid gid msg ai)
               \<notin> {Some MissingAnswer, Some AnswerTooLong}"
    by auto
  from timeout_after_answer [OF live len taken] k
  show "check_question_timeout cfg (snd (handle_answer_command cfg s t uid gid msg ai)) now
           key uid gid idx = snd (handle_answer_command cfg s t uid gid msg ai)"
    by simp
qed

text \<open>
  An instance: two of three questions are answered; the task of question 1 is stale
  and does nothing; the task of question 2 fires at time 200 and ends the interview
  with the record \<^verbatim>\<open>timeout_question_3\<close> and a cooldown until 3800; a second firing
  and a late answer find no session.
\<close>

theorem C2_timeout_guard_witness:
  "check_question_timeout demo_config demo_two_answers 200 (42, 1000) 42 1000 1 = demo_two_answers
   \<and> audit_sessions (check_question_timeout demo_config demo_two_answers 200 (42, 1000) 42 1000 2) = []
   \<and> auditing_game_ids (check_question_timeout demo_config demo_two_answers 200 (42, 1000) 42 1000 2) = {}
   \<and> cooldown (check_question_timeout demo_config demo_two_answers 200 (42, 1000) 42 1000 2)
       = [((42, ''Steve123''), 3800)]
   \<and> map (\<lambda>(u, rs). (u, map (\<lambda>r. (rec_answers r, rec_score r, rec_state r)) rs))
         (audit_records (check_question_timeout demo_config demo_two_answers 200 (42, 1000) 42 1000 2))
       = [(42, [([''first'', ''second'', []], 0, Some 3)])]
   \<and> check_question_timeout demo_config
         (check_question_timeout demo_config demo_two_answers 200 (42, 1000) 42 1000 2)
         201 (42, 1000) 42 1000 2
       = check_question_timeout demo_config demo_two_answers 200 (42, 1000) 42 1000 2
   \<and> handle_answer_command demo_config
         (check_question_timeout demo_config demo_two_answers 200 (42, 1000) 42 1000 2)
         201 42 1000 ''third'' NoOpenAI
       = (Some NoActiveSession,
          check_question_timeout demo_config demo_two_answers 200 (42, 1000) 42 1000 2)"
proof -
  let ?sess = "\<lparr>user_id = 42, game_id = ''Steve123'', group_id = 1000, questions = demo_questions,
           answers = [''first'', ''second''], current_question_index = 0, start_time = 0,
           last_activity_time = 20, current_question_start_time = 20\<rparr>"
  have stale: "\<not> (\<exists>sess. map_of (audit_sessions demo_two_answers) (42, 1000) = Some sess
      \<and> length (answers sess) = 1 \<and> game_id sess \<in> auditing_game_ids demo_two_answers)"
    by (simp add: demo_two_answers_eq)
  have due: "map_of (audit_sessions demo_two_answers) (42, 1000) = Some ?sess
      \<and> length (answers ?sess) = 2 \<and> game_id ?sess \<in> auditing_game_ids demo_two_answers"
    by (simp add: demo_two_answers_eq)
  have key: "((42, 1000) :: session_key) = (42, 1000)" by simp
  note guard = C2_timeout_guard [of demo_two_answers "(42, 1000)" _ demo_config 200 42 1000]
  from guard [of 1] stale
  have first: "check_question_timeout demo_config demo_two_answers 200 (42, 1000) 42 1000 1
      = demo_two_answers"
    by blast
  from guard [of 2] due
  have eff: "check_question_timeout demo_config demo_two_answers 200 (42, 1000) 42 1000 2 =
      demo_two_answers\<lparr>audit_records := AList.update 42
                ((case map_of (audit_records demo_two_answers) 42 of None \<Rightarrow> [] | Some rs \<Rightarrow> rs) @
                 [\<lparr>rec_user_id = 42, rec_game_id = game_id ?sess, rec_group_id = 1000,
                   rec_questions = questions ?sess, rec_answers = answers ?sess @ [[]],
                   rec_score = 0, rec_passed = False, rec_state = Some (Suc 2),
                   rec_start_time = start_time ?sess, rec_end_time = 200\<rparr>])
                (audit_records demo_two_answers),
             cooldown := AList.update (42, game_id ?sess)
                (200 + of_int (cooldown_seconds demo_config)) (cooldown demo_two_answers),
             audit_sessions := AList.delete (42, 1000) (audit_sessions demo_two_answers),
             timeout_tasks := AList.delete (42, 1000) (timeout_tasks demo_two_answers),
             auditing_game_ids := auditing_game_ids demo_two_answers - {game_id ?sess}\<rparr>"
    by blast
  from guard [of 2] due
  have again: "check_question_timeout demo_config
         (check_question_timeout demo_config demo_two_answers 200 (42, 1000) 42 1000 2)
         201 (42, 1000) 42 1000 2
       = check_question_timeout demo_config demo_two_answers 200 (42, 1000) 42 1000 2"
    by blast
  from guard [of 2] due key
  have late: "handle_answer_command demo_config
         (check_question_timeout demo_config demo_two_answers 200 (42, 1000) 42 1000 2)
         201 42 1000 ''third'' NoOpenAI
       = (Some NoActiveSession,
          check_question_timeout demo_config demo_two_answers 200 (42, 1000) 42 1000 2)"
    by blast
  have vals: "audit_sessions (check_question_timeout demo_config demo_two_answers 200 (42, 1000) 42 1000 2) = []
   \<and> auditing_game_ids (check_question_timeout demo_config demo_two_answers 200 (42, 1000) 42 1000 2) = {}
   \<and> cooldown (check_question_timeout demo_config demo_two_answers 200 (42, 1000) 42 1000 2)
       = [((42, ''Steve123''), 3800)]
   \<and> map (\<lambda>(u, rs). (u, map (\<lambda>r. (rec_answers r, rec_score r, rec_state r)) rs))
         (audit_records (check_question_timeout demo_config demo_two_answers 200 (42, 1000) 42 1000 2))
       = [(42, [([''first'', ''second'', []], 0, Some 3)])]"
    unfolding eff by (simp add: demo_two_answers_eq initial_state_def demo_config_def)
  from first vals again late show ?thesis by simp
qed

section \<open>The attribute current_question_index (C5)\<close>

text \<open>
  C5, as the claim states it, fails. After the first accepted answer the session of
  \<open>demo_one_answer\<close> has one answer and the attribute
  \<^verbatim>\<open>current_question_index\<close> is still 0: the source writes it when the session is
  created and nowhere else.
\<close>

theorem C5_index_counterexample:
  "map_of (audit_sessions demo_one_answer) (42, 1000) \<noteq> None
   \<and> length (answers (the (map_of (audit_sessions demo_one_answer) (42, 1000)))) = 1
   \<and> current_question_index (the (map_of (audit_sessions demo_one_answer) (42, 1000))) = 0"
  by (simp add: demo_one_answer_eq)

text \<open>
  C5, amended. A session is created with no answers and
  \<^verbatim>\<open>current_question_index\<close> 0. Answer intake and the firing of a timeout task
  never change the attribute of a session that stays live; an answer that is not
  rejected as empty or too long makes the list of answers of a session that stays live
  longer by one, every other session keeps its answers, and a timeout firing leaves
  the remaining sessions as they were. So the number of answers, not the attribute,
  is the index of the outstanding question, and the two agree only as long as no
  answer has been recorded.
\<close>

theorem C5_index_attribute:
  "(qs \<noteq> [] \<longrightarrow>
      (\<exists>sess. map_of (audit_sessions (prepare_and_send_first_question s now
                 (PrepareTask key uid gid game) (Some qs))) key = Some sess
          \<and> answers sess = [] \<and> current_question_index sess = 0))
   \<and> (\<forall>k sess'. map_of (audit_sessions (snd (handle_answer_command cfg s now uid gid msg ai))) k
                   = Some sess' \<longrightarrow>
          (\<exists>sess. map_of (audit_sessions s) k = Some sess
             \<and> current_question_index sess' = current_question_index sess
             \<and> (length (answers sess') = length (answers sess)
                 \<or> k = (uid, gid) \<and> length (answers sess') = Suc (length (answers sess)))))
   \<and> (\<forall>sess sess'. map_of (audit_sessions s) (uid, gid) = Some sess
          \<and> map_of (audit_sessions (snd (handle_answer_command cfg s now uid gid msg ai))) (uid, gid)
              = Some sess'
          \<and> fst (handle_answer_command cfg s now uid gid msg ai)
              \<notin> {Some MissingAnswer, Some AnswerTooLong} \<longrightarrow>
          length (answers sess') = Suc (length (answers sess))
          \<and> current_question_index sess' = current_question_index sess)
   \<and> (\<forall>k sess'. map_of (audit_sessions (check_question_timeout cfg s now key uid gid idx)) k
                   = Some sess' \<longrightarrow>
          map_of (audit_sessions s) k = Some sess')"
proof (intro conjI allI impI)
  assume "qs \<noteq> []"
  then show "\<exists>sess. map_of (audit_sessions (prepare_and_send_first_question s now
                 (PrepareTask key uid gid game) (Some qs))) key = Some sess
          \<and> answers sess = [] \<and> current_question_index sess = 0"
    by (simp add: update_conv')
next
  fix k sess'
  assume "map_of (audit_sessions (snd (handle_answer_command cfg s now uid gid msg ai))) k = Some sess'"
  then show "\<exists>sess. map_of (audit_sessions s) k = Some sess
             \<and> current_question_index sess' = current_question_index sess
             \<and> (length (answers sess') = length (answers sess)
                 \<or> k = (uid, gid) \<and> length (answers sess') = Suc (length (answers sess)))"
    by (rule answer_sessions)
next
  fix sess sess'
  assume a: "map_of (audit_sessions s) (uid, gid) = Some sess
          \<and> map_of (audit_sessions (snd (handle_answer_command cfg s now uid gid msg ai))) (uid, gid)
              = Some sess'
          \<and> fst (handle_answer_command cfg s now uid gid msg ai)
              \<notin> {Some MissingAnswer, Some AnswerTooLong}"
  then have both: "length (answers sess') = Suc (length (answers sess))
          \<and> current_question_index sess' = current_question_index sess"
    using answer_recorded [of s uid gid sess cfg now msg ai sess'] by blast
  from both show "length (answers sess') = Suc (length (answers sess))" by simp
  from both show "current_question_index sess' = current_question_index sess" by simp
next
  fix k sess'
  assume "map_of (audit_sessions (check_question_timeout cfg s now key uid gid idx)) k = Some sess'"
  then show "map_of (audit_sessions s) k = Some sess'"
    by (rule check_timeout_sessions)
qed

text \<open>
  An instance: the second answer of the sample interview makes two answers out of one;
  the attribute is 0 before and after.
\<close>

theorem C5_index_attribute_witness:
  "map_of (audit_sessions demo_two_answers) (42, 1000)
     = Some \<lparr>user_id = 42, game_id = ''Steve123'', group_id = 1000, questions = demo_questions,
             answers = [''first'', ''second''], current_question_index = 0, start_time = 0,
             last_activity_time = 20, current_question_start_time = 20\<rparr>
   \<and> fst (handle_answer_command demo_config demo_one_answer 20 42 1000 ''second'' NoOpenAI) = None
   \<and> length (answers (the (map_of (audit_sessions demo_two_answers) (42, 1000))))
       = Suc (length (answers (the (map_of (audit_sessions demo_one_answer) (42, 1000)))))
   \<and> current_question_index (the (map_of (audit_sessions demo_two_answers) (42, 1000)))
       = current_question_index (the (map_of (audit_sessions demo_one_answer) (42, 1000)))"
proof -
  let ?one = "\<lparr>user_id = 42, game_id = ''Steve123'', group_id = 1000, questions = demo_questions,
           answers = [''first''], current_question_index = 0, start_time = 0,
           last_activity_time = 10, current_question_start_time = 10\<rparr>"
  let ?two = "\<lparr>user_id = 42, game_id = ''Steve123'', group_id = 1000, questions = demo_questions,
           answers = [''first'', ''second''], current_question_index = 0, start_time = 0,
           last_activity_time = 20, current_question_start_time = 20\<rparr>"
  have before: "map_of (audit_sessions demo_one_answer) (42, 1000) = Some ?one"
    by (simp add: demo_one_answer_eq)
  have after: "map_of (audit_sessions (snd (handle_answer_command demo_config demo_one_answer 20
      42 1000 ''second'' NoOpenAI))) (42, 1000) = Some ?two"
    using demo_two_answers_eq by (simp add: demo_two_answers_def)
  have reply: "fst (handle_answer_command demo_config demo_one_answer 20 42 1000 ''second'' NoOpenAI)
      = None"
    by (simp add: demo_one_answer_eq initial_state_def demo_questions_def demo_config_def step_defs)
  then have taken: "fst (handle_answer_command demo_config demo_one_answer 20 42 1000 ''second''
      NoOpenAI) \<notin> {Some MissingAnswer, Some AnswerTooLong}"
    by simp
  from C5_index_attribute [of _ demo_one_answer 20 _ 42 1000 _ demo_config "''second''" NoOpenAI]
    before after taken
  have "length (answers ?two) = Suc (length (answers ?one))
      \<and> current_question_index ?two = current_question_index ?one"
    by blast
  with before after reply show ?thesis by (simp add: demo_two_answers_def)
qed

end
